theory Spec2Isabelle
  imports Complex_Main "HOL-Library.Multiset"
begin

section \<open>Data model (app.py, section Models)\<close>

text \<open>
  A \<open>datetime\<close> is a point on a discrete, totally ordered time line (Python's datetime has
  microsecond resolution and a least value): a natural number of microseconds.
\<close>

type_synonym datetime = nat

text \<open>
  Class \<open>User\<close>. The primary key \<open>id\<close> is called \<open>user_ident\<close> here, because \<open>id\<close> is the
  identity function of HOL.
\<close>

record user =
  user_ident :: nat
  email :: string
  password_hash :: string

text \<open>
  Class \<open>GlucoseEntry\<close>. The type parameter \<open>'f\<close> stands for Python's float, which is kept
  abstract. The columns \<open>medication\<close> and \<open>notes\<close> (here \<open>notes_text\<close>) are nullable:
  \<open>None\<close> is SQL NULL.
\<close>

record 'f glucose_entry =
  entry_ident :: nat
  timestamp :: datetime
  glucose_value :: 'f
  medication :: "string option"
  notes_text :: "string option"
  user_id :: nat

text \<open>The two tables, each in insertion order.\<close>

record 'f database =
  users :: "user list"
  glucose_entries :: "'f glucose_entry list"

section \<open>The environment of one request\<close>

text \<open>
  What the handlers call outside app.py: werkzeug's \<open>generate_password_hash\<close> (with the salt
  it draws for this call) and \<open>check_password_hash\<close>, Python's \<open>float\<close> on a string
  (\<open>None\<close> is ValueError), the test whether a float is NaN, which the database engine makes
  when it binds a float, and the clock \<open>datetime.utcnow\<close>, read when a row is inserted.
\<close>

record 'f env =
  generate_password_hash :: "string \<Rightarrow> string"
  check_password_hash :: "string \<Rightarrow> string \<Rightarrow> bool"
  float_str :: "string \<Rightarrow> 'f option"
  isnan :: "'f \<Rightarrow> bool"
  utcnow :: datetime

text \<open>
  A float where a concrete one is needed: a finite number, an infinity or NaN. The handlers
  are polymorphic in the float type and see it only through \<open>float_str\<close> and \<open>isnan\<close>.
\<close>

datatype float_value = Finite real | PosInf | NegInf | NaN

text \<open>
  The methods that the routes of app.py accept. HEAD, which Flask answers like GET, is left
  out; a method that a route does not accept never reaches its view.
\<close>

datatype http_method = GET | POST

text \<open>
  A request: its method (\<open>request.method\<close>, here \<open>req_method\<close>), its form
  (\<open>request.form.get k\<close> is \<open>form req k\<close>, \<open>None\<close> when the field is absent) and the user
  id that the signed session cookie carries, if any.
\<close>

record request =
  req_method :: http_method
  form :: "string \<rightharpoonup> string"
  session :: "nat option"

text \<open>
  A response is a redirect to an endpoint (\<open>redirect (url_for name)\<close>; query parameters of the
  URL are not modelled), a rendered template with the entries passed to it, if any, or an
  abort with a status code.
\<close>

datatype 'f response =
  Redirect string
  | Render string "'f glucose_entry list option"
  | Abort nat

text \<open>
  What a handler leaves behind: the response, the messages it flashed (text and category),
  the database after the commit and the session.
\<close>

record 'f outcome =
  response :: "'f response"
  flashed :: "(string \<times> string) list"
  database_after :: "'f database"
  session_after :: "nat option"

text \<open>
  Exceptions that no handler catches (the request ends in HTTP 500, nothing is committed):
  a violated constraint of the schema, and an attribute read on None or on the anonymous user
  (\<open>password.encode\<close> inside \<open>check_password_hash\<close> when the password field is absent,
  \<open>current_user.id\<close> without a user).
\<close>

datatype error =
  IntegrityError
  | AttributeError

text \<open>Exceptions of \<open>float\<close>, which the dashboard catches.\<close>

datatype float_error = TypeError | ValueError

definition reply ::
  "'f database \<Rightarrow> request \<Rightarrow> 'f response \<Rightarrow> (string \<times> string) list \<Rightarrow> 'f outcome" where
  "reply db req resp msgs =
     \<lparr>response = resp, flashed = msgs, database_after = db, session_after = session req\<rparr>"

section \<open>Queries and inserts\<close>

text \<open>\<open>Query.first\<close>: the first row, or None.\<close>

definition first :: "'a list \<Rightarrow> 'a option" where
  "first rows = (case rows of [] \<Rightarrow> None | r # _ \<Rightarrow> Some r)"

text \<open>
  \<open>User.query.filter_by(email=email).first()\<close>. The comparison is exact (case-sensitive). An
  absent form field is None, which no row matches: the column is not nullable.
\<close>

definition query_user_by_email :: "'f database \<Rightarrow> string option \<Rightarrow> user option" where
  "query_user_by_email db e =
     (case e of
        None \<Rightarrow> None
      | Some addr \<Rightarrow> first (filter (\<lambda>u. email u = addr) (users db)))"

text \<open>\<open>load_user\<close>: \<open>User.query.get(int(user_id))\<close>.\<close>

definition load_user :: "'f database \<Rightarrow> nat \<Rightarrow> user option" where
  "load_user db i = first (filter (\<lambda>u. user_ident u = i) (users db))"

text \<open>
  \<open>current_user\<close>: the user that the session's id loads; anonymous (None) without a session
  or when no such user exists.
\<close>

definition current_user :: "'f database \<Rightarrow> request \<Rightarrow> user option" where
  "current_user db req =
     (case session req of None \<Rightarrow> None | Some i \<Rightarrow> load_user db i)"

definition is_authenticated :: "'f database \<Rightarrow> request \<Rightarrow> bool" where
  "is_authenticated db req = (current_user db req \<noteq> None)"

text \<open>An integer primary key: one more than the largest key of the table, 1 for an empty table.\<close>

definition next_ident :: "nat list \<Rightarrow> nat" where
  "next_ident keys = Suc (fold max keys 0)"

text \<open>
  \<open>db.session.add(user); db.session.commit()\<close>. The column \<open>email\<close> is declared unique: a second
  row with the same email raises IntegrityError.
\<close>

definition add_user :: "'f database \<Rightarrow> string \<Rightarrow> string \<Rightarrow> error + 'f database" where
  "add_user db addr h =
     (if addr \<in> set (map email (users db)) then Inl IntegrityError
      else Inr (db\<lparr>users := users db @
             [\<lparr>user_ident = next_ident (map user_ident (users db)),
               email = addr, password_hash = h\<rparr>]\<rparr>))"

section \<open>Route /register\<close>

text \<open>Python's truth value of \<open>request.form.get k\<close>: None and the empty string are false.\<close>

definition truthy :: "string option \<Rightarrow> bool" where
  "truthy v = (case v of None \<Rightarrow> False | Some s \<Rightarrow> s \<noteq> [])"

definition register :: "'f env \<Rightarrow> 'f database \<Rightarrow> request \<Rightarrow> error + 'f outcome" where
  "register env db req =
     (if is_authenticated db req then Inr (reply db req (Redirect ''dashboard'') [])
      else if req_method req = POST then
        (let email_f = form req ''email'';
             password_f = form req ''password'';
             confirm_f = form req ''confirm''
         in if \<not> truthy email_f \<or> \<not> truthy password_f then
              Inr (reply db req (Redirect ''register'')
                     [(''Email and password are required.'', ''danger'')])
            else if password_f \<noteq> confirm_f then
              Inr (reply db req (Redirect ''register'')
                     [(''Passwords do not match.'', ''danger'')])
            else
              (case query_user_by_email db email_f of
                 Some existing \<Rightarrow>
                   Inr (reply db req (Redirect ''login'')
                          [(''Email already registered. Please log in.'', ''warning'')])
               | None \<Rightarrow>
                   (case add_user db (the email_f)
                           (generate_password_hash env (the password_f)) of
                      Inl exn \<Rightarrow> Inl exn
                    | Inr db' \<Rightarrow>
                        Inr (reply db' req (Redirect ''login'')
                               [(''Registration successful. Please log in.'', ''success'')]))))
      else Inr (reply db req (Render ''register.html'' None) []))"

section \<open>Login manager (flask_login)\<close>

text \<open>
  The settings of a \<open>LoginManager\<close> that \<open>unauthorized\<close> reads. The library's defaults are
  LOGIN_MESSAGE and LOGIN_MESSAGE_CATEGORY of flask_login; app.py sets only \<open>login_view\<close>.
\<close>

record login_manager_settings =
  login_view :: "string option"
  login_message :: "string option"
  login_message_category :: string

definition LoginManager :: login_manager_settings where
  "LoginManager =
     \<lparr>login_view = None,
      login_message = Some ''Please log in to access this page.'',
      login_message_category = ''message''\<rparr>"

definition login_manager :: login_manager_settings where
  "login_manager = LoginManager\<lparr>login_view := Some ''login''\<rparr>"

text \<open>
  \<open>LoginManager.unauthorized\<close>: without a login view abort with 401; otherwise flash the login
  message, if one is set, and redirect to the login view.
\<close>

definition unauthorized :: "'f database \<Rightarrow> request \<Rightarrow> 'f outcome" where
  "unauthorized db req =
     (case login_view login_manager of
        None \<Rightarrow> reply db req (Abort 401) []
      | Some view \<Rightarrow>
          reply db req (Redirect view)
            (case login_message login_manager of
               None \<Rightarrow> []
             | Some msg \<Rightarrow> [(msg, login_message_category login_manager)]))"

text \<open>The decorator \<open>@login_required\<close>.\<close>

definition login_required ::
  "('f env \<Rightarrow> 'f database \<Rightarrow> request \<Rightarrow> error + 'f outcome) \<Rightarrow>
   'f env \<Rightarrow> 'f database \<Rightarrow> request \<Rightarrow> error + 'f outcome" where
  "login_required view env db req =
     (if is_authenticated db req then view env db req else Inr (unauthorized db req))"

section \<open>Routes / and /login and /logout\<close>

definition index :: "'f env \<Rightarrow> 'f database \<Rightarrow> request \<Rightarrow> error + 'f outcome" where
  "index env db req =
     (if is_authenticated db req then Inr (reply db req (Redirect ''dashboard'') [])
      else Inr (reply db req (Redirect ''login'') []))"

text \<open>
  \<open>User.check_password\<close>, which app.py declares on a \<open>str\<close>; the login view passes it
  \<open>request.form.get\<close>, which is None when the field is absent.
\<close>

definition check_password :: "'f env \<Rightarrow> user \<Rightarrow> string option \<Rightarrow> error + bool" where
  "check_password env u password =
     (case password of
        None \<Rightarrow> Inl AttributeError
      | Some pw \<Rightarrow> Inr (check_password_hash env (password_hash u) pw))"

text \<open>\<open>login_user\<close>: the session now carries the user's id.\<close>

definition login_user :: "user \<Rightarrow> 'f outcome \<Rightarrow> 'f outcome" where
  "login_user u out = out\<lparr>session_after := Some (user_ident u)\<rparr>"

definition logout_user :: "'f outcome \<Rightarrow> 'f outcome" where
  "logout_user out = out\<lparr>session_after := None\<rparr>"

definition invalid_credentials :: "'f database \<Rightarrow> request \<Rightarrow> 'f outcome" where
  "invalid_credentials db req =
     reply db req (Render ''login.html'' None) [(''Invalid email or password.'', ''danger'')]"

definition login :: "'f env \<Rightarrow> 'f database \<Rightarrow> request \<Rightarrow> error + 'f outcome" where
  "login env db req =
     (if is_authenticated db req then Inr (reply db req (Redirect ''dashboard'') [])
      else if req_method req = POST then
        (let email_f = form req ''email'';
             password_f = form req ''password''
         in case query_user_by_email db email_f of
              None \<Rightarrow> Inr (invalid_credentials db req)
            | Some u \<Rightarrow>
                (case check_password env u password_f of
                   Inl exn \<Rightarrow> Inl exn
                 | Inr True \<Rightarrow>
                     Inr (login_user u
                            (reply db req (Redirect ''dashboard'')
                               [(''Logged in successfully.'', ''success'')]))
                 | Inr False \<Rightarrow> Inr (invalid_credentials db req)))
      else Inr (reply db req (Render ''login.html'' None) []))"

definition logout_view :: "'f env \<Rightarrow> 'f database \<Rightarrow> request \<Rightarrow> error + 'f outcome" where
  "logout_view env db req =
     Inr (logout_user (reply db req (Redirect ''login'') [(''Logged out.'', ''info'')]))"

definition logout :: "'f env \<Rightarrow> 'f database \<Rightarrow> request \<Rightarrow> error + 'f outcome" where
  "logout = login_required logout_view"

section \<open>Route /dashboard\<close>

text \<open>
  \<open>float(glucose_value)\<close>: TypeError on None (the field is absent), ValueError on a string
  that is no float literal.
\<close>

definition py_float :: "'f env \<Rightarrow> string option \<Rightarrow> float_error + 'f" where
  "py_float env x =
     (case x of
        None \<Rightarrow> Inl TypeError
      | Some s \<Rightarrow> (case float_str env s of None \<Rightarrow> Inl ValueError | Some v \<Rightarrow> Inr v))"

text \<open>
  \<open>db.session.add(entry); db.session.commit()\<close>: the row gets the next primary key and, as no
  timestamp is given, the column's default \<open>datetime.utcnow\<close>. The column \<open>glucose_value\<close> is
  declared \<open>nullable=False\<close>, and the SQLite engine that app.py configures binds a NaN as NULL:
  the commit of a NaN raises IntegrityError and stores nothing.
\<close>

definition add_entry ::
  "'f env \<Rightarrow> 'f database \<Rightarrow> 'f \<Rightarrow> string option \<Rightarrow> string option \<Rightarrow> nat \<Rightarrow>
   error + 'f database" where
  "add_entry env db v med nts owner =
     (if isnan env v then Inl IntegrityError
      else Inr (db\<lparr>glucose_entries := glucose_entries db @
             [\<lparr>entry_ident = next_ident (map entry_ident (glucose_entries db)),
               timestamp = utcnow env, glucose_value = v,
               medication = med, notes_text = nts, user_id = owner\<rparr>]\<rparr>))"

text \<open>
  \<open>order_by(column.desc())\<close>: rows by descending key. SQL leaves the order of rows with equal
  keys open; here they keep their table order.
\<close>

fun place_desc :: "('a \<Rightarrow> nat) \<Rightarrow> 'a \<Rightarrow> 'a list \<Rightarrow> 'a list" where
  "place_desc key r [] = [r]"
| "place_desc key r (s # rows) =
     (if key s \<le> key r then r # s # rows else s # place_desc key r rows)"

definition order_by_desc :: "('a \<Rightarrow> nat) \<Rightarrow> 'a list \<Rightarrow> 'a list" where
  "order_by_desc key rows = foldr (place_desc key) rows []"

text \<open>
  The query of the dashboard:
  \<open>GlucoseEntry.query.filter_by(user_id=...).order_by(GlucoseEntry.timestamp.desc()).limit(30).all()\<close>.
\<close>

definition recent_entries :: "'f database \<Rightarrow> nat \<Rightarrow> 'f glucose_entry list" where
  "recent_entries db owner =
     take 30 (order_by_desc timestamp (filter (\<lambda>e. user_id e = owner) (glucose_entries db)))"

definition dashboard_view :: "'f env \<Rightarrow> 'f database \<Rightarrow> request \<Rightarrow> error + 'f outcome" where
  "dashboard_view env db req =
     (if req_method req = POST then
        (let glucose_value_f = form req ''glucose_value'';
             medication_f = form req ''medication'';
             notes_f = form req ''notes''
         in case py_float env glucose_value_f of
              Inl exn \<Rightarrow>
                Inr (reply db req (Redirect ''dashboard'')
                       [(''Please enter a valid number for glucose value.'', ''danger'')])
            | Inr v \<Rightarrow>
                (case current_user db req of
                   None \<Rightarrow> Inl AttributeError
                 | Some cu \<Rightarrow>
                     (case add_entry env db v medication_f notes_f (user_ident cu) of
                        Inl exn \<Rightarrow> Inl exn
                      | Inr db' \<Rightarrow>
                          Inr (reply db' req (Redirect ''dashboard'')
                                 [(''Entry saved.'', ''success'')]))))
      else
        (case current_user db req of
           None \<Rightarrow> Inl AttributeError
         | Some cu \<Rightarrow>
             Inr (reply db req
                    (Render ''dashboard.html'' (Some (recent_entries db (user_ident cu)))) [])))"

definition dashboard :: "'f env \<Rightarrow> 'f database \<Rightarrow> request \<Rightarrow> error + 'f outcome" where
  "dashboard = login_required dashboard_view"

section \<open>Sample data\<close>

text \<open>
  A concrete environment, database and requests, on which the theorems below are
  instantiated. The float type is \<open>float_value\<close>; \<open>float_str\<close> is Python's \<open>float\<close> on the
  four strings that are used; the hash is a stand-in for werkzeug's.
\<close>

definition sample_env :: "float_value env" where
  "sample_env =
     \<lparr>generate_password_hash = (\<lambda>pw. ''scrypt$salt$'' @ rev pw),
      check_password_hash = (\<lambda>h pw. h = ''scrypt$salt$'' @ rev pw),
      float_str =
        [''5.5'' \<mapsto> Finite 5.5, ''120'' \<mapsto> Finite 120, ''inf'' \<mapsto> PosInf, ''nan'' \<mapsto> NaN],
      isnan = (\<lambda>v. v = NaN),
      utcnow = 1000\<rparr>"

definition alice :: user where
  "alice =
     \<lparr>user_ident = 1, email = ''alice@example.com'',
      password_hash = ''scrypt$salt$321terces''\<rparr>"

definition bob :: user where
  "bob =
     \<lparr>user_ident = 2, email = ''bob@example.com'',
      password_hash = ''scrypt$salt$2retnuh''\<rparr>"

definition reading :: "nat \<Rightarrow> datetime \<Rightarrow> real \<Rightarrow> nat \<Rightarrow> float_value glucose_entry" where
  "reading k t v owner =
     \<lparr>entry_ident = k, timestamp = t, glucose_value = Finite v,
      medication = None, notes_text = None, user_id = owner\<rparr>"

definition sample_db :: "float_value database" where
  "sample_db =
     \<lparr>users = [alice, bob],
      glucose_entries = [reading 1 100 5.5 1, reading 2 200 7.2 2, reading 3 300 6.1 1]\<rparr>"

text \<open>Two readings of one user that carry the same timestamp.\<close>

definition tied_db :: "float_value database" where
  "tied_db =
     \<lparr>users = [alice],
      glucose_entries = [reading 1 100 5.5 1, reading 2 100 6.1 1]\<rparr>"

text \<open>One user and no reading.\<close>

definition fresh_db :: "float_value database" where
  "fresh_db = \<lparr>users = [alice], glucose_entries = []\<rparr>"

text \<open>
  One user with thirty readings, all stamped after time 2000, and the same database with one
  more reading of that user, stamped 1000.
\<close>

definition crowded_db :: "float_value database" where
  "crowded_db =
     \<lparr>users = [alice],
      glucose_entries =
        map (\<lambda>k. reading k (2000 + k) 5.5 1)
          [1, 2, 3, 4, 5, 6, 7, 8, 9, 10, 11, 12, 13, 14, 15, 16, 17, 18, 19, 20,
           21, 22, 23, 24, 25, 26, 27, 28, 29, 30]\<rparr>"

definition crowded_after :: "float_value database" where
  "crowded_after =
     crowded_db\<lparr>glucose_entries := glucose_entries crowded_db @ [reading 31 1000 5.5 1]\<rparr>"

definition anonymous_request :: "http_method \<Rightarrow> (string \<times> string) list \<Rightarrow> request" where
  "anonymous_request m kvs = \<lparr>req_method = m, form = map_of kvs, session = None\<rparr>"

definition user_request :: "nat \<Rightarrow> http_method \<Rightarrow> (string \<times> string) list \<Rightarrow> request" where
  "user_request i m kvs = \<lparr>req_method = m, form = map_of kvs, session = Some i\<rparr>"

section \<open>Facts about the queries\<close>

lemma first_filter_None: "first (filter P rows) = None \<longleftrightarrow> (\<forall>r \<in> set rows. \<not> P r)"
  by (induction rows) (auto simp: first_def)

lemma first_filter_Some: "first (filter P rows) = Some r \<Longrightarrow> r \<in> set rows \<and> P r"
  by (induction rows) (auto simp: first_def split: if_splits)

lemma query_user_by_email_None:
  "query_user_by_email db (Some addr) = None \<longleftrightarrow> addr \<notin> email ` set (users db)"
  by (auto simp: query_user_by_email_def first_filter_None)

lemma fold_max_ge: "k \<in> set keys \<Longrightarrow> k \<le> fold max keys (m::nat)"
proof (induction keys arbitrary: m)
  case Nil
  then show ?case by simp
next
  case (Cons a keys)
  have mono: "max a m \<le> fold max keys (max a m)"
    by (induction keys arbitrary: m a) (auto intro: order_trans [rotated])
  show ?case
  proof (cases "k = a")
    case True
    then show ?thesis using mono by simp
  next
    case False
    then show ?thesis using Cons by simp
  qed
qed

lemma next_ident_fresh: "next_ident keys \<notin> set keys"
  using fold_max_ge [of "next_ident keys" keys 0] by (auto simp: next_ident_def)

section \<open>Facts about the ordering\<close>

lemma mset_place_desc: "mset (place_desc key r rows) = add_mset r (mset rows)"
  by (induction rows) auto

lemma mset_order_by_desc: "mset (order_by_desc key rows) = mset rows"
  by (induction rows) (auto simp: order_by_desc_def mset_place_desc)

lemma set_order_by_desc: "set (order_by_desc key rows) = set rows"
  using mset_order_by_desc [of key rows] by (metis set_mset_mset)

lemma set_place_desc: "set (place_desc key r rows) = insert r (set rows)"
  using mset_place_desc [of key r rows] by (metis set_mset_mset set_mset_add_mset_insert)

lemma sorted_place_desc:
  "sorted_wrt (\<lambda>a b. key b \<le> key a) rows \<Longrightarrow>
   sorted_wrt (\<lambda>a b. key b \<le> key a) (place_desc key r rows)"
  by (induction rows) (auto simp: set_place_desc)

lemma sorted_order_by_desc: "sorted_wrt (\<lambda>a b. key b \<le> key a) (order_by_desc key rows)"
  by (induction rows) (auto simp: order_by_desc_def sorted_place_desc)

lemma sorted_wrt_limit: "sorted_wrt P rows \<Longrightarrow> sorted_wrt P (take n rows)"
  by (induction rows arbitrary: n) (auto simp: take_Cons split: nat.splits dest: in_set_takeD)

lemma strict_of_distinct:
  "sorted_wrt (\<lambda>a b. key b \<le> key a) rows \<Longrightarrow> distinct (map key rows) \<Longrightarrow>
   sorted_wrt (\<lambda>a b. (key b :: nat) < key a) rows"
proof (induction rows)
  case Nil
  then show ?case by simp
next
  case (Cons a rows)
  have "key s < key a" if "s \<in> set rows" for s
  proof -
    from that Cons.prems(1) have "key s \<le> key a" by simp
    moreover from Cons.prems(2) have "key a \<notin> key ` set rows" by simp
    with that have "key s \<noteq> key a" by (metis imageI)
    ultimately show ?thesis by simp
  qed
  with Cons show ?case by simp
qed

lemma distinct_keys_order_by_desc:
  "distinct (map key (order_by_desc key rows)) = distinct (map key rows)"
proof -
  have "mset (map key (order_by_desc key rows)) = mset (map key rows)"
    by (simp add: mset_order_by_desc)
  then show ?thesis by (rule mset_eq_imp_distinct_iff)
qed

text \<open>
  A row of a descending list is among the first \<open>n\<close> when at most \<open>n\<close> rows have a key
  that is not smaller than its own.
\<close>

lemma in_limit_of_sorted_desc:
  "sorted_wrt (\<lambda>a b. key b \<le> key a) rows \<Longrightarrow> r \<in> set rows \<Longrightarrow>
   length (filter (\<lambda>s. (key r :: nat) \<le> key s) rows) \<le> n \<Longrightarrow> r \<in> set (take n rows)"
proof (induction rows arbitrary: n)
  case Nil
  then show ?case by simp
next
  case (Cons a rows)
  then have ge: "key r \<le> key a" by auto
  with Cons.prems(3) obtain m where n: "n = Suc m" by (cases n) auto
  show ?case
  proof (cases "r = a")
    case True
    then show ?thesis by (simp add: n)
  next
    case False
    from Cons.prems(1) have "sorted_wrt (\<lambda>a b. key b \<le> key a) rows" by simp
    moreover from False Cons.prems have "r \<in> set rows" by simp
    moreover from Cons.prems(3) ge n have "length (filter (\<lambda>s. key r \<le> key s) rows) \<le> m"
      by simp
    ultimately have "r \<in> set (take m rows)" by (rule Cons.IH)
    then show ?thesis by (simp add: n)
  qed
qed

section \<open>Facts about the handlers\<close>

lemma current_user_entries_irrelevant:
  "current_user (db\<lparr>glucose_entries := es\<rparr>) req = current_user db req"
  by (simp add: current_user_def load_user_def split: option.splits)

lemma register_keeps_database_when_taken:
  assumes "query_user_by_email db (form req ''email'') = Some u"
  shows "\<exists>out. register env db req = Inr out \<and> database_after out = db
           \<and> session_after out = session req"
  using assms by (simp add: register_def Let_def reply_def)

lemma dashboard_post_saved:
  assumes "current_user db req = Some cu" and "req_method req = POST"
    and "py_float env (form req ''glucose_value'') = Inr v" and "\<not> isnan env v"
  shows "dashboard env db req =
           Inr \<lparr>response = Redirect ''dashboard'',
                flashed = [(''Entry saved.'', ''success'')],
                database_after =
                  db\<lparr>glucose_entries := glucose_entries db @
                       [\<lparr>entry_ident = next_ident (map entry_ident (glucose_entries db)),
                         timestamp = utcnow env, glucose_value = v,
                         medication = form req ''medication'',
                         notes_text = form req ''notes'',
                         user_id = user_ident cu\<rparr>]\<rparr>,
                session_after = session req\<rparr>"
  using assms
  by (simp add: dashboard_def login_required_def is_authenticated_def dashboard_view_def
      Let_def add_entry_def reply_def)

text \<open>A NaN passes \<open>float\<close> and fails at the commit, which nothing catches.\<close>

lemma dashboard_post_nan:
  assumes "current_user db req = Some cu" and "req_method req = POST"
    and "py_float env (form req ''glucose_value'') = Inr v" and "isnan env v"
  shows "dashboard env db req = Inl IntegrityError"
  using assms
  by (simp add: dashboard_def login_required_def is_authenticated_def dashboard_view_def
      Let_def add_entry_def)


text \<open>A GET of the dashboard by a logged-in user renders the query \<open>recent_entries\<close>.\<close>

lemma dashboard_get_renders:
  assumes "current_user db req = Some cu" and "req_method req = GET"
  shows "dashboard env db req =
           Inr \<lparr>response = Render ''dashboard.html'' (Some (recent_entries db (user_ident cu))),
                flashed = [], database_after = db, session_after = session req\<rparr>"
  using assms
  by (simp add: dashboard_def login_required_def is_authenticated_def dashboard_view_def
      reply_def)

text \<open>
  A new row of a user is among the rows that the query returns when fewer than 30 stored
  rows of that user carry a timestamp at or after its own.
\<close>

lemma newest_is_listed:
  assumes room: "length (filter (\<lambda>e. user_id e = owner \<and> timestamp new \<le> timestamp e)
                    (glucose_entries db)) < 30"
    and mine: "user_id new = owner"
  shows "new \<in> set (recent_entries (db\<lparr>glucose_entries := glucose_entries db @ [new]\<rparr>) owner)"
proof -
  let ?mine = "filter (\<lambda>e. user_id e = owner) (glucose_entries db @ [new])"
  let ?sorted = "order_by_desc timestamp ?mine"
  have "mset (filter (\<lambda>s. timestamp new \<le> timestamp s) ?sorted) =
        mset (filter (\<lambda>s. timestamp new \<le> timestamp s) ?mine)"
    by (simp only: mset_filter mset_order_by_desc)
  then have "length (filter (\<lambda>s. timestamp new \<le> timestamp s) ?sorted) =
        length (filter (\<lambda>s. timestamp new \<le> timestamp s) ?mine)"
    by (metis size_mset)
  also have "\<dots> = Suc (length (filter (\<lambda>e. user_id e = owner \<and> timestamp new \<le> timestamp e)
                    (glucose_entries db)))"
    using mine by (simp add: conj_commute)
  finally have "length (filter (\<lambda>s. timestamp new \<le> timestamp s) ?sorted) \<le> 30"
    using room by simp
  moreover have "new \<in> set ?sorted"
    using mine by (simp add: set_order_by_desc)
  moreover have "sorted_wrt (\<lambda>a b. timestamp b \<le> timestamp a) ?sorted"
    by (rule sorted_order_by_desc)
  ultimately have "new \<in> set (take 30 ?sorted)"
    using in_limit_of_sorted_desc [of timestamp ?sorted new 30] by blast
  then show ?thesis by (simp add: recent_entries_def)
qed

section \<open>Facts about the sample data\<close>

lemma user_request_simps:
  "req_method (user_request i m kvs) = m"
  "form (user_request i m kvs) = map_of kvs"
  "session (user_request i m kvs) = Some i"
  by (simp_all add: user_request_def)

lemma anonymous_request_simps:
  "req_method (anonymous_request m kvs) = m"
  "form (anonymous_request m kvs) = map_of kvs"
  "session (anonymous_request m kvs) = None"
  by (simp_all add: anonymous_request_def)

lemma anonymous_current: "\<not> is_authenticated db (anonymous_request m kvs)"
  by (simp add: is_authenticated_def current_user_def anonymous_request_def)

lemma alice_current:
  "current_user crowded_db (user_request 1 m kvs) = Some alice"
  "current_user crowded_after (user_request 1 m kvs) = Some alice"
  "current_user fresh_db (user_request 1 m kvs) = Some alice"
  "current_user sample_db (user_request 1 m kvs) = Some alice"
  by (simp_all add: crowded_after_def crowded_db_def fresh_db_def sample_db_def
      user_request_def current_user_def load_user_def first_def alice_def bob_def)

lemma alice_authenticated: "is_authenticated sample_db (user_request 1 m kvs)"
  unfolding is_authenticated_def alice_current by simp

lemma crowded_next_ident: "next_ident (map entry_ident (glucose_entries crowded_db)) = 31"
  by (simp add: crowded_db_def next_ident_def reading_def)

lemma crowded_recent:
  "map entry_ident (recent_entries crowded_after 1) =
     [30, 29, 28, 27, 26, 25, 24, 23, 22, 21, 20, 19, 18, 17, 16, 15, 14, 13, 12, 11,
      10, 9, 8, 7, 6, 5, 4, 3, 2, 1]"
  by (simp add: crowded_after_def crowded_db_def recent_entries_def order_by_desc_def
      reading_def)

section \<open>Registration\<close>

text \<open>
  C1. A POST to /register by an unauthenticated client with a non-empty email, a non-empty
  password, password equal to confirm and an email that no stored user has: the handler
  raises nothing; exactly one user row is appended, with a fresh key, the submitted email
  and, as password hash, what \<open>generate_password_hash\<close> returns for the submitted password
  (the plaintext itself is never written); nothing else in the database changes; the
  response is a redirect to the login page with one flash of category success.
\<close>

theorem register_creates_user:
  assumes "\<not> is_authenticated db req" and "req_method req = POST"
    and "form req ''email'' = Some addr" and "addr \<noteq> []"
    and "form req ''password'' = Some pw" and "pw \<noteq> []"
    and "form req ''confirm'' = Some pw"
    and "addr \<notin> email ` set (users db)"
  shows "register env db req =
           Inr \<lparr>response = Redirect ''login'',
                flashed = [(''Registration successful. Please log in.'', ''success'')],
                database_after =
                  db\<lparr>users := users db @
                       [\<lparr>user_ident = next_ident (map user_ident (users db)), email = addr,
                         password_hash = generate_password_hash env pw\<rparr>]\<rparr>,
                session_after = session req\<rparr>
         \<and> next_ident (map user_ident (users db)) \<notin> user_ident ` set (users db)"
proof -
  from assms(8) have fresh: "query_user_by_email db (Some addr) = None"
    by (simp add: query_user_by_email_None)
  from assms fresh have "register env db req =
           Inr \<lparr>response = Redirect ''login'',
                flashed = [(''Registration successful. Please log in.'', ''success'')],
                database_after =
                  db\<lparr>users := users db @
                       [\<lparr>user_ident = next_ident (map user_ident (users db)), email = addr,
                         password_hash = generate_password_hash env pw\<rparr>]\<rparr>,
                session_after = session req\<rparr>"
    by (simp add: register_def truthy_def add_user_def Let_def reply_def)
  then show ?thesis
    using next_ident_fresh [of "map user_ident (users db)"] by simp
qed

theorem register_creates_user_witness:
  "register sample_env fresh_db
     (anonymous_request POST
        [(''email'', ''bob@example.com''), (''password'', ''hunter2''),
         (''confirm'', ''hunter2'')]) =
   Inr \<lparr>response = Redirect ''login'',
        flashed = [(''Registration successful. Please log in.'', ''success'')],
        database_after = \<lparr>users = [alice, bob], glucose_entries = []\<rparr>,
        session_after = None\<rparr>"
  using register_creates_user
    [of fresh_db
      "anonymous_request POST
         [(''email'', ''bob@example.com''), (''password'', ''hunter2''),
          (''confirm'', ''hunter2'')]"
      "''bob@example.com''" "''hunter2''" sample_env]
  by (simp add: sample_env_def fresh_db_def anonymous_request_def is_authenticated_def
      current_user_def alice_def bob_def next_ident_def)

section \<open>The dashboard query\<close>

text \<open>
  C2, as amended. For every user id and every database, the query of the dashboard returns
  only stored entries of that user, at most 30 of them, in descending order of timestamp:
  no entry is newer than the one before it. The order is strictly descending when the
  timestamps of that user's entries are pairwise distinct.
\<close>

theorem recent_entries_descending:
  "(\<forall>e \<in> set (recent_entries db owner). user_id e = owner \<and> e \<in> set (glucose_entries db))
   \<and> sorted_wrt (\<lambda>a b. timestamp b \<le> timestamp a) (recent_entries db owner)
   \<and> length (recent_entries db owner) \<le> 30
   \<and> (distinct (map timestamp (filter (\<lambda>e. user_id e = owner) (glucose_entries db))) \<longrightarrow>
        sorted_wrt (\<lambda>a b. timestamp b < timestamp a) (recent_entries db owner))"
proof -
  let ?mine = "filter (\<lambda>e. user_id e = owner) (glucose_entries db)"
  have members:
    "\<forall>e \<in> set (recent_entries db owner). user_id e = owner \<and> e \<in> set (glucose_entries db)"
    by (auto simp: recent_entries_def set_order_by_desc dest!: in_set_takeD)
  have desc: "sorted_wrt (\<lambda>a b. timestamp b \<le> timestamp a) (recent_entries db owner)"
    unfolding recent_entries_def by (intro sorted_wrt_limit sorted_order_by_desc)
  have capped: "length (recent_entries db owner) \<le> 30"
    by (simp add: recent_entries_def)
  have strict: "sorted_wrt (\<lambda>a b. timestamp b < timestamp a) (recent_entries db owner)"
    if "distinct (map timestamp ?mine)"
  proof -
    from that have "distinct (map timestamp (order_by_desc timestamp ?mine))"
      by (simp add: distinct_keys_order_by_desc)
    then have "distinct (map timestamp (recent_entries db owner))"
      by (simp add: recent_entries_def take_map [symmetric])
    with desc show ?thesis by (rule strict_of_distinct)
  qed
  from members desc capped strict show ?thesis by blast
qed

theorem recent_entries_descending_witness:
  "recent_entries sample_db 1 = [reading 3 300 6.1 1, reading 1 100 5.5 1]
   \<and> distinct (map timestamp (filter (\<lambda>e. user_id e = 1) (glucose_entries sample_db)))
   \<and> sorted_wrt (\<lambda>a b. timestamp b < timestamp a) (recent_entries sample_db 1)"
  using recent_entries_descending [of sample_db 1]
  by (simp add: sample_db_def reading_def recent_entries_def order_by_desc_def)

text \<open>
  C2 as stated fails: two entries of one user with the same timestamp are both returned,
  and neither is strictly newer than the other.
\<close>

theorem recent_entries_not_strict:
  "recent_entries tied_db 1 = [reading 1 100 5.5 1, reading 2 100 6.1 1]
   \<and> \<not> sorted_wrt (\<lambda>a b. timestamp b < timestamp a) (recent_entries tied_db 1)"
  by (simp add: tied_db_def reading_def recent_entries_def order_by_desc_def)

section \<open>Saving a reading\<close>

text \<open>
  C3, as amended. A POST to /dashboard by a logged-in user whose glucose_value field parses
  as a float other than NaN appends exactly one entry; the entry belongs to the current
  user and carries the parsed value. A GET of the dashboard in the same session then renders
  the query on the new database, and the query lists the new entry provided fewer than 30
  stored entries of that user carry a timestamp at or after the new entry's.
\<close>

theorem dashboard_post_creates_entry:
  assumes "current_user db req = Some cu" and "req_method req = POST"
    and "form req ''glucose_value'' = Some s" and "float_str env s = Some v"
    and "\<not> isnan env v"
  shows "let new = \<lparr>entry_ident = next_ident (map entry_ident (glucose_entries db)),
                    timestamp = utcnow env, glucose_value = v,
                    medication = form req ''medication'', notes_text = form req ''notes'',
                    user_id = user_ident cu\<rparr>;
             db' = db\<lparr>glucose_entries := glucose_entries db @ [new]\<rparr>
         in dashboard env db req =
              Inr \<lparr>response = Redirect ''dashboard'',
                   flashed = [(''Entry saved.'', ''success'')],
                   database_after = db', session_after = session req\<rparr>
            \<and> (req_method req' = GET \<and> session req' = session req \<longrightarrow>
                 dashboard env' db' req' =
                   Inr \<lparr>response =
                          Render ''dashboard.html'' (Some (recent_entries db' (user_ident cu))),
                        flashed = [], database_after = db', session_after = session req'\<rparr>)
            \<and> (length (filter (\<lambda>e. user_id e = user_ident cu \<and> utcnow env \<le> timestamp e)
                          (glucose_entries db)) < 30 \<longrightarrow>
                 new \<in> set (recent_entries db' (user_ident cu)))"
proof -
  define new where "new = \<lparr>entry_ident = next_ident (map entry_ident (glucose_entries db)),
                    timestamp = utcnow env, glucose_value = v,
                    medication = form req ''medication'', notes_text = form req ''notes'',
                    user_id = user_ident cu\<rparr>"
  define db' where "db' = db\<lparr>glucose_entries := glucose_entries db @ [new]\<rparr>"
  from assms(3,4) have parsed: "py_float env (form req ''glucose_value'') = Inr v"
    by (simp add: py_float_def)
  have post: "dashboard env db req =
           Inr \<lparr>response = Redirect ''dashboard'', flashed = [(''Entry saved.'', ''success'')],
                database_after = db', session_after = session req\<rparr>"
    using dashboard_post_saved [OF assms(1,2) parsed assms(5)] by (simp add: new_def db'_def)
  have get: "dashboard env' db' req' =
           Inr \<lparr>response = Render ''dashboard.html'' (Some (recent_entries db' (user_ident cu))),
                flashed = [], database_after = db', session_after = session req'\<rparr>"
    if "req_method req' = GET" and "session req' = session req"
  proof -
    from assms(1) that(2) have "current_user db req' = Some cu"
      by (simp add: current_user_def)
    then have "current_user db' req' = Some cu"
      by (simp add: db'_def current_user_entries_irrelevant)
    then show ?thesis using that(1) by (rule dashboard_get_renders)
  qed
  have listed: "new \<in> set (recent_entries db' (user_ident cu))"
    if "length (filter (\<lambda>e. user_id e = user_ident cu \<and> utcnow env \<le> timestamp e)
                  (glucose_entries db)) < 30"
    unfolding db'_def using that by (intro newest_is_listed) (simp_all add: new_def)
  from post get listed show ?thesis by (simp add: new_def db'_def Let_def)
qed

theorem dashboard_post_creates_entry_witness:
  "dashboard sample_env sample_db
     (user_request 1 POST [(''glucose_value'', ''120''), (''medication'', ''insulin'')]) =
     Inr \<lparr>response = Redirect ''dashboard'', flashed = [(''Entry saved.'', ''success'')],
          database_after =
            sample_db\<lparr>glucose_entries := glucose_entries sample_db @
              [\<lparr>entry_ident = 4, timestamp = 1000, glucose_value = Finite 120,
                medication = Some ''insulin'', notes_text = None, user_id = 1\<rparr>]\<rparr>,
          session_after = Some 1\<rparr>
   \<and> dashboard sample_env
       (sample_db\<lparr>glucose_entries := glucose_entries sample_db @
          [\<lparr>entry_ident = 4, timestamp = 1000, glucose_value = Finite 120,
            medication = Some ''insulin'', notes_text = None, user_id = 1\<rparr>]\<rparr>)
       (user_request 1 GET []) =
     Inr \<lparr>response =
            Render ''dashboard.html''
              (Some (recent_entries
                 (sample_db\<lparr>glucose_entries := glucose_entries sample_db @
                    [\<lparr>entry_ident = 4, timestamp = 1000, glucose_value = Finite 120,
                      medication = Some ''insulin'', notes_text = None, user_id = 1\<rparr>]\<rparr>) 1)),
          flashed = [],
          database_after =
            sample_db\<lparr>glucose_entries := glucose_entries sample_db @
              [\<lparr>entry_ident = 4, timestamp = 1000, glucose_value = Finite 120,
                medication = Some ''insulin'', notes_text = None, user_id = 1\<rparr>]\<rparr>,
          session_after = Some 1\<rparr>
   \<and> \<lparr>entry_ident = 4, timestamp = 1000, glucose_value = Finite 120,
       medication = Some ''insulin'', notes_text = None, user_id = 1\<rparr>
     \<in> set (recent_entries
              (sample_db\<lparr>glucose_entries := glucose_entries sample_db @
                 [\<lparr>entry_ident = 4, timestamp = 1000, glucose_value = Finite 120,
                   medication = Some ''insulin'', notes_text = None, user_id = 1\<rparr>]\<rparr>) 1)"
proof -
  let ?req = "user_request 1 POST [(''glucose_value'', ''120''), (''medication'', ''insulin'')]"
  have field: "form ?req ''glucose_value'' = Some ''120''"
    by (simp add: user_request_simps)
  have parsed: "float_str sample_env ''120'' = Some (Finite 120)"
    by (simp add: sample_env_def)
  have number: "\<not> isnan sample_env (Finite 120)"
    by (simp add: sample_env_def)
  have room: "length (filter (\<lambda>e. user_id e = user_ident alice \<and> utcnow sample_env \<le> timestamp e)
                   (glucose_entries sample_db)) < 30"
    by (simp add: sample_db_def)
  have ident: "next_ident (map entry_ident (glucose_entries sample_db)) = 4"
    by (simp add: sample_db_def next_ident_def reading_def)
  show ?thesis
    using room dashboard_post_creates_entry
      [OF alice_current(4) user_request_simps(1) field parsed number,
        where req' = "user_request 1 GET []" and env' = sample_env]
    by (simp add: Let_def ident user_request_simps) (simp add: sample_env_def alice_def)
qed

text \<open>
  C3 as stated fails, in two ways. The clock of the sample environment reads 1000 and the
  user's thirty stored readings are all stamped later: the reading is saved, and the next
  GET renders the thirty newest readings, among which it is not. And the string nan, which
  \<open>float\<close> parses, is not saved at all: the commit raises IntegrityError.
\<close>

theorem dashboard_post_entry_not_listed:
  "dashboard sample_env crowded_db (user_request 1 POST [(''glucose_value'', ''5.5'')]) =
     Inr \<lparr>response = Redirect ''dashboard'', flashed = [(''Entry saved.'', ''success'')],
          database_after = crowded_after, session_after = Some 1\<rparr>
   \<and> dashboard sample_env crowded_after (user_request 1 GET []) =
     Inr \<lparr>response = Render ''dashboard.html'' (Some (recent_entries crowded_after 1)),
          flashed = [], database_after = crowded_after, session_after = Some 1\<rparr>
   \<and> reading 31 1000 5.5 1 \<notin> set (recent_entries crowded_after 1)
   \<and> py_float sample_env
        (form (user_request 1 POST [(''glucose_value'', ''nan'')]) ''glucose_value'') = Inr NaN
   \<and> dashboard sample_env fresh_db (user_request 1 POST [(''glucose_value'', ''nan'')]) =
     Inl IntegrityError"
proof -
  have parsed: "py_float sample_env
      (form (user_request 1 POST [(''glucose_value'', ''5.5'')]) ''glucose_value'') =
        Inr (Finite 5.5)"
    by (simp add: py_float_def sample_env_def user_request_simps)
  have number: "\<not> isnan sample_env (Finite 5.5)"
    by (simp add: sample_env_def)
  have post: "dashboard sample_env crowded_db (user_request 1 POST [(''glucose_value'', ''5.5'')]) =
     Inr \<lparr>response = Redirect ''dashboard'', flashed = [(''Entry saved.'', ''success'')],
          database_after = crowded_after, session_after = Some 1\<rparr>"
    using dashboard_post_saved [OF alice_current(1) user_request_simps(1) parsed number]
    by (simp add: user_request_simps crowded_next_ident crowded_after_def reading_def
        sample_env_def alice_def)
  have get: "dashboard sample_env crowded_after (user_request 1 GET []) =
     Inr \<lparr>response = Render ''dashboard.html'' (Some (recent_entries crowded_after 1)),
          flashed = [], database_after = crowded_after, session_after = Some 1\<rparr>"
    using dashboard_get_renders
      [OF alice_current(2) user_request_simps(1), where env = sample_env]
    by (simp add: user_request_simps alice_def)
  have "entry_ident (reading 31 1000 5.5 1)
          \<notin> set (map entry_ident (recent_entries crowded_after 1))"
    unfolding crowded_recent by (simp add: reading_def)
  then have absent: "reading 31 1000 5.5 1 \<notin> set (recent_entries crowded_after 1)"
    by force
  have nan: "py_float sample_env
      (form (user_request 1 POST [(''glucose_value'', ''nan'')]) ''glucose_value'') = Inr NaN"
    by (simp add: py_float_def sample_env_def user_request_simps)
  have "isnan sample_env NaN"
    by (simp add: sample_env_def)
  with nan have "dashboard sample_env fresh_db
      (user_request 1 POST [(''glucose_value'', ''nan'')]) = Inl IntegrityError"
    by (intro dashboard_post_nan [OF alice_current(3) user_request_simps(1)])
  with post get absent nan show ?thesis by simp
qed

text \<open>
  C4, as amended. Whenever a POST to /dashboard saves an entry, the entry carries the
  medication and notes fields of the form as they are: the string when the field is present
  (the empty string when it is present and empty), and NULL (None) when the field is absent
  from the request. The POST of a parsed glucose_value saves no entry only when the value
  is NaN.
\<close>

theorem dashboard_post_optional_fields:
  assumes "current_user db req = Some cu" and "req_method req = POST"
    and "py_float env (form req ''glucose_value'') = Inr v"
  shows "case dashboard env db req of
           Inl exn \<Rightarrow> isnan env v
         | Inr out \<Rightarrow>
             \<not> isnan env v
             \<and> map medication (glucose_entries (database_after out)) =
               map medication (glucose_entries db) @ [form req ''medication'']
             \<and> map notes_text (glucose_entries (database_after out)) =
               map notes_text (glucose_entries db) @ [form req ''notes'']"
proof (cases "isnan env v")
  case True
  with assms have "dashboard env db req = Inl IntegrityError"
    by (rule dashboard_post_nan)
  with True show ?thesis by simp
next
  case False
  then show ?thesis using dashboard_post_saved [OF assms False] by simp
qed

theorem dashboard_post_optional_fields_witness:
  "case dashboard sample_env fresh_db
          (user_request 1 POST
             [(''glucose_value'', ''5.5''), (''medication'', ''metformin''), (''notes'', '''')]) of
     Inl exn \<Rightarrow> False
   | Inr out \<Rightarrow>
       map medication (glucose_entries (database_after out)) = [Some ''metformin'']
       \<and> map notes_text (glucose_entries (database_after out)) = [Some '''']"
proof -
  let ?req = "user_request 1 POST
             [(''glucose_value'', ''5.5''), (''medication'', ''metformin''), (''notes'', '''')]"
  have parsed: "py_float sample_env (form ?req ''glucose_value'') = Inr (Finite 5.5)"
    by (simp add: py_float_def sample_env_def user_request_simps)
  have number: "\<not> isnan sample_env (Finite 5.5)"
    by (simp add: sample_env_def)
  show ?thesis
    using number dashboard_post_optional_fields [OF alice_current(3) user_request_simps(1) parsed]
    by (simp add: user_request_simps fresh_db_def split: sum.splits)
qed

text \<open>
  C4 as stated fails: a form without the fields medication and notes is saved with NULL in
  both columns, not with the empty string.
\<close>

theorem absent_fields_saved_as_null:
  "dashboard sample_env fresh_db (user_request 1 POST [(''glucose_value'', ''5.5'')]) =
     Inr \<lparr>response = Redirect ''dashboard'', flashed = [(''Entry saved.'', ''success'')],
          database_after =
            \<lparr>users = [alice],
             glucose_entries =
               [\<lparr>entry_ident = 1, timestamp = 1000, glucose_value = Finite 5.5,
                 medication = None, notes_text = None, user_id = 1\<rparr>]\<rparr>,
          session_after = Some 1\<rparr>
   \<and> \<not> (case dashboard sample_env fresh_db
                 (user_request 1 POST [(''glucose_value'', ''5.5'')]) of
          Inl exn \<Rightarrow> False
        | Inr out \<Rightarrow>
            map medication (glucose_entries (database_after out)) = [Some '''']
            \<and> map notes_text (glucose_entries (database_after out)) = [Some ''''])"
proof -
  let ?req = "user_request 1 POST [(''glucose_value'', ''5.5'')]"
  have parsed: "py_float sample_env (form ?req ''glucose_value'') = Inr (Finite 5.5)"
    by (simp add: py_float_def sample_env_def user_request_simps)
  have number: "\<not> isnan sample_env (Finite 5.5)"
    by (simp add: sample_env_def)
  show ?thesis
    using dashboard_post_saved [OF alice_current(3) user_request_simps(1) parsed number]
    by (simp add: user_request_simps fresh_db_def next_ident_def sample_env_def alice_def)
qed

section \<open>What the dashboard accepts\<close>




section \<open>Failed logins\<close>

text \<open>
  C5. Two failing login attempts, both POSTs to /login by clients that are not logged in:
  in the first the lookup by email finds no user, in the second it finds a user but
  \<open>check_password_hash\<close> rejects the submitted password. Both are answered alike: the
  login form is rendered again with the one flash "Invalid email or password." of
  category danger; the database is unchanged and the session stays as it was, so that
  neither client is logged in.
\<close>

theorem login_failures_alike:
  assumes "\<not> is_authenticated db r1" and "req_method r1 = POST"
    and "\<not> is_authenticated db r2" and "req_method r2 = POST"
    and "query_user_by_email db (form r1 ''email'') = None"
    and "query_user_by_email db (form r2 ''email'') = Some u"
    and "form r2 ''password'' = Some pw"
    and "\<not> check_password_hash env2 (password_hash u) pw"
  shows "login env1 db r1 =
           Inr \<lparr>response = Render ''login.html'' None,
                flashed = [(''Invalid email or password.'', ''danger'')],
                database_after = db, session_after = session r1\<rparr>
         \<and> login env2 db r2 =
           Inr \<lparr>response = Render ''login.html'' None,
                flashed = [(''Invalid email or password.'', ''danger'')],
                database_after = db, session_after = session r2\<rparr>"
  using assms
  by (simp add: login_def Let_def invalid_credentials_def reply_def check_password_def)

theorem login_failures_alike_witness:
  "login sample_env sample_db
     (anonymous_request POST [(''email'', ''carol@example.com''), (''password'', ''secret123'')]) =
     Inr \<lparr>response = Render ''login.html'' None,
          flashed = [(''Invalid email or password.'', ''danger'')],
          database_after = sample_db, session_after = None\<rparr>
   \<and> login sample_env sample_db
     (anonymous_request POST [(''email'', ''alice@example.com''), (''password'', ''guess'')]) =
     Inr \<lparr>response = Render ''login.html'' None,
          flashed = [(''Invalid email or password.'', ''danger'')],
          database_after = sample_db, session_after = None\<rparr>"
proof -
  let ?r1 = "anonymous_request POST
               [(''email'', ''carol@example.com''), (''password'', ''secret123'')]"
  let ?r2 = "anonymous_request POST [(''email'', ''alice@example.com''), (''password'', ''guess'')]"
  have unknown: "query_user_by_email sample_db (form ?r1 ''email'') = None"
    by (simp add: anonymous_request_simps query_user_by_email_def sample_db_def first_def
        alice_def bob_def)
  have known: "query_user_by_email sample_db (form ?r2 ''email'') = Some alice"
    by (simp add: anonymous_request_simps query_user_by_email_def sample_db_def first_def
        alice_def bob_def)
  have given: "form ?r2 ''password'' = Some ''guess''"
    by (simp add: anonymous_request_simps)
  have wrong: "\<not> check_password_hash sample_env (password_hash alice) ''guess''"
    by (simp add: sample_env_def alice_def)
  show ?thesis
    using login_failures_alike
      [OF anonymous_current anonymous_request_simps(1) anonymous_current
        anonymous_request_simps(1) unknown known given wrong, where ?env1.0 = sample_env]
    by (simp add: anonymous_request_simps)
qed

section \<open>Rejected registrations\<close>

text \<open>
  C6, as amended. A request to /register whose email field equals, character by character,
  the email of a stored user never creates a user and changes neither the database nor the
  session. When the request is a POST by an unauthenticated client with a non-empty
  password equal to confirm, the response is a redirect to the login page with one flash of
  category warning.
\<close>

theorem register_duplicate_email:
  assumes "form req ''email'' = Some addr" and "addr \<in> email ` set (users db)"
  shows "(\<exists>out. register env db req = Inr out \<and> database_after out = db
            \<and> session_after out = session req)
         \<and> (\<not> is_authenticated db req \<and> req_method req = POST \<and> addr \<noteq> []
              \<and> truthy (form req ''password'')
              \<and> form req ''confirm'' = form req ''password'' \<longrightarrow>
            register env db req =
              Inr \<lparr>response = Redirect ''login'',
                   flashed = [(''Email already registered. Please log in.'', ''warning'')],
                   database_after = db, session_after = session req\<rparr>)"
proof -
  from assms obtain u where taken: "query_user_by_email db (form req ''email'') = Some u"
    using query_user_by_email_None [of db addr] by auto
  then have "\<exists>out. register env db req = Inr out \<and> database_after out = db
            \<and> session_after out = session req"
    by (rule register_keeps_database_when_taken)
  moreover have "register env db req =
              Inr \<lparr>response = Redirect ''login'',
                   flashed = [(''Email already registered. Please log in.'', ''warning'')],
                   database_after = db, session_after = session req\<rparr>"
    if "\<not> is_authenticated db req" "req_method req = POST" "addr \<noteq> []"
       "truthy (form req ''password'')" "form req ''confirm'' = form req ''password''"
    using that taken assms(1) by (simp add: register_def Let_def reply_def truthy_def)
  ultimately show ?thesis by blast
qed

theorem register_duplicate_email_witness:
  "register sample_env sample_db
     (anonymous_request POST
        [(''email'', ''alice@example.com''), (''password'', ''pw''), (''confirm'', ''pw'')]) =
     Inr \<lparr>response = Redirect ''login'',
          flashed = [(''Email already registered. Please log in.'', ''warning'')],
          database_after = sample_db, session_after = None\<rparr>"
proof -
  let ?req = "anonymous_request POST
        [(''email'', ''alice@example.com''), (''password'', ''pw''), (''confirm'', ''pw'')]"
  have field: "form ?req ''email'' = Some ''alice@example.com''"
    by (simp add: anonymous_request_simps)
  have taken: "''alice@example.com'' \<in> email ` set (users sample_db)"
    by (simp add: sample_db_def alice_def)
  show ?thesis
    using register_duplicate_email [OF field taken, of sample_env]
    by (simp add: anonymous_current anonymous_request_simps truthy_def)
qed

text \<open>
  C6 as stated fails: a registration with the email of a stored user whose password and
  confirm fields differ is sent back to the registration form with a flash of category
  danger; the duplicate email is never looked at.
\<close>

theorem register_duplicate_email_mismatch:
  "register sample_env sample_db
     (anonymous_request POST
        [(''email'', ''alice@example.com''), (''password'', ''pw''), (''confirm'', ''pW'')]) =
     Inr \<lparr>response = Redirect ''register'',
          flashed = [(''Passwords do not match.'', ''danger'')],
          database_after = sample_db, session_after = None\<rparr>"
  by (simp add: register_def Let_def reply_def truthy_def anonymous_current
      anonymous_request_simps)

text \<open>
  C8, as amended. A POST to /register in which the password field differs from the confirm
  field creates no user, whoever sends it: the handler raises nothing and leaves database
  and session as they were. When the client is not logged in, the response is a redirect to
  the registration form with one flash of category danger.
\<close>

theorem register_password_mismatch:
  assumes "req_method req = POST"
    and "form req ''password'' \<noteq> form req ''confirm''"
  shows "(\<exists>out. register env db req = Inr out \<and> database_after out = db
            \<and> session_after out = session req)
         \<and> (\<not> is_authenticated db req \<longrightarrow>
            register env db req =
              Inr \<lparr>response = Redirect ''register'',
                   flashed =
                     [(if truthy (form req ''email'') \<and> truthy (form req ''password'')
                       then ''Passwords do not match.''
                       else ''Email and password are required.'', ''danger'')],
                   database_after = db, session_after = session req\<rparr>)"
  using assms by (simp add: register_def Let_def reply_def)

theorem register_password_mismatch_witness:
  "register sample_env sample_db
     (anonymous_request POST
        [(''email'', ''carol@example.com''), (''password'', ''pw''), (''confirm'', ''pW'')]) =
     Inr \<lparr>response = Redirect ''register'',
          flashed = [(''Passwords do not match.'', ''danger'')],
          database_after = sample_db, session_after = None\<rparr>"
proof -
  let ?req = "anonymous_request POST
        [(''email'', ''carol@example.com''), (''password'', ''pw''), (''confirm'', ''pW'')]"
  have differ: "form ?req ''password'' \<noteq> form ?req ''confirm''"
    by (simp add: anonymous_request_simps)
  show ?thesis
    using register_password_mismatch
      [OF anonymous_request_simps(1) differ, where env = sample_env and db = sample_db]
    by (simp add: anonymous_current anonymous_request_simps truthy_def)
qed

text \<open>
  C8 as stated fails in its second part: a logged-in client that posts differing password
  and confirm fields to /register is redirected to the dashboard, with no flash. No user is
  created.
\<close>

theorem register_mismatch_logged_in:
  "register sample_env sample_db
     (user_request 1 POST
        [(''email'', ''carol@example.com''), (''password'', ''pw''), (''confirm'', ''pW'')]) =
     Inr \<lparr>response = Redirect ''dashboard'', flashed = [],
          database_after = sample_db, session_after = Some 1\<rparr>"
  by (simp add: register_def reply_def alice_authenticated user_request_simps
      del: One_nat_def)

section \<open>Unparsable readings\<close>

text \<open>
  C7. A POST to /dashboard by a logged-in user whose glucose_value field is absent
  (TypeError) or is no float literal (ValueError) saves nothing: the database is unchanged,
  and the response is a redirect to the dashboard with one flash of category danger.
\<close>

theorem dashboard_post_unparsable:
  assumes "is_authenticated db req" and "req_method req = POST"
    and "py_float env (form req ''glucose_value'') = Inl exn"
  shows "dashboard env db req =
           Inr \<lparr>response = Redirect ''dashboard'',
                flashed = [(''Please enter a valid number for glucose value.'', ''danger'')],
                database_after = db, session_after = session req\<rparr>"
  using assms
  by (simp add: dashboard_def login_required_def dashboard_view_def Let_def reply_def)

theorem dashboard_post_unparsable_witness:
  "py_float sample_env (form (user_request 1 POST [(''glucose_value'', ''high'')]) ''glucose_value'')
     = Inl ValueError
   \<and> py_float sample_env (form (user_request 1 POST []) ''glucose_value'') = Inl TypeError
   \<and> dashboard sample_env sample_db (user_request 1 POST [(''glucose_value'', ''high'')]) =
     Inr \<lparr>response = Redirect ''dashboard'',
          flashed = [(''Please enter a valid number for glucose value.'', ''danger'')],
          database_after = sample_db, session_after = Some 1\<rparr>
   \<and> dashboard sample_env sample_db (user_request 1 POST []) =
     Inr \<lparr>response = Redirect ''dashboard'',
          flashed = [(''Please enter a valid number for glucose value.'', ''danger'')],
          database_after = sample_db, session_after = Some 1\<rparr>"
proof -
  note auth = alice_authenticated
  have bad: "py_float sample_env
      (form (user_request 1 POST [(''glucose_value'', ''high'')]) ''glucose_value'') = Inl ValueError"
    by (simp add: py_float_def sample_env_def user_request_simps)
  have absent: "py_float sample_env (form (user_request 1 POST []) ''glucose_value'') = Inl TypeError"
    by (simp add: py_float_def user_request_simps)
  show ?thesis
    using dashboard_post_unparsable [OF auth user_request_simps(1) bad]
      dashboard_post_unparsable [OF auth user_request_simps(1) absent]
    by (simp add: user_request_simps py_float_def sample_env_def del: One_nat_def)
qed

section \<open>Protected routes\<close>

text \<open>
  C9, as amended. An unauthenticated request to a protected route (the views \<open>dashboard\<close> and
  \<open>logout\<close>, which app.py decorates with \<open>@login_required\<close>) is never answered by a rendered
  page: the response is a redirect to the login page, and neither the database nor the
  session changes. The redirect is not silent: the login manager flashes its login message,
  "Please log in to access this page.", in category message; no flash of the category
  danger is produced.
\<close>

theorem protected_routes_redirect:
  assumes "\<not> is_authenticated db req"
  shows "dashboard env db req =
           Inr \<lparr>response = Redirect ''login'',
                flashed = [(''Please log in to access this page.'', ''message'')],
                database_after = db, session_after = session req\<rparr>
         \<and> logout env db req =
           Inr \<lparr>response = Redirect ''login'',
                flashed = [(''Please log in to access this page.'', ''message'')],
                database_after = db, session_after = session req\<rparr>"
  using assms
  by (simp add: logout_def dashboard_def login_required_def unauthorized_def
      login_manager_def LoginManager_def reply_def)

theorem protected_routes_redirect_witness:
  "dashboard sample_env sample_db (anonymous_request POST [(''glucose_value'', ''5.5'')]) =
     Inr \<lparr>response = Redirect ''login'',
          flashed = [(''Please log in to access this page.'', ''message'')],
          database_after = sample_db, session_after = None\<rparr>
   \<and> logout sample_env sample_db (anonymous_request GET []) =
     Inr \<lparr>response = Redirect ''login'',
          flashed = [(''Please log in to access this page.'', ''message'')],
          database_after = sample_db, session_after = None\<rparr>"
  using protected_routes_redirect
      [OF anonymous_current [of sample_db POST "[(''glucose_value'', ''5.5'')]"],
        where env = sample_env]
    protected_routes_redirect
      [OF anonymous_current [of sample_db GET "[]"], where env = sample_env]
  by (simp add: anonymous_request_simps)

text \<open>
  C9 as stated fails in its last part: the unauthenticated GET of /dashboard is redirected
  to the login page, but with a flash.
\<close>

theorem dashboard_redirect_not_silent:
  "dashboard sample_env sample_db (anonymous_request GET []) =
     Inr \<lparr>response = Redirect ''login'',
          flashed = [(''Please log in to access this page.'', ''message'')],
          database_after = sample_db, session_after = None\<rparr>
   \<and> [(''Please log in to access this page.'', ''message'')] \<noteq> ([] :: (string \<times> string) list)"
  by (simp add: dashboard_def login_required_def anonymous_current
      unauthorized_def login_manager_def LoginManager_def reply_def anonymous_request_simps)

end
